theory Spec2Isabelle
  imports Main "HOL-Library.Sublist"
begin

section \<open>Custom components: declarations, registry, asset handler, instance calls\<close>

text \<open>
  A shallow embedding of \<^verbatim>\<open>lib/streamlit/components.py\<close>. Collaborators that live
  outside that file (the operating system, the JSON and columnar encoders, the widget
  value store, the delta queue) are parameters of the model, bundled in records of
  functions; everything the file itself computes is a definition below.
\<close>

subsection \<open>Python values, exceptions and log records\<close>

text \<open>
  A Python value is either \<^verbatim>\<open>None\<close> or some other object; \<open>'v\<close> is the type of
  the other objects. Every \<^verbatim>\<open>is None\<close> test of the source is a comparison with
  \<open>PyNone\<close>.
\<close>

datatype 'v pyval = PyNone | PyVal 'v

text \<open>
  The two exception classes the file raises. \<^verbatim>\<open>MarshallComponentException\<close> carries
  its message and, when it wraps an encoder failure, the text of the wrapped exception.
\<close>

datatype py_error =
    StreamlitAPIException string
  | MarshallComponentException string "string option"

datatype log_record = Log_Debug string | Log_Info string | Log_Warning string

subsection \<open>The operating system and the standard library\<close>

text \<open>
  \<^verbatim>\<open>open(abspath, "r")\<close> followed by \<^verbatim>\<open>file.read()\<close> either yields the contents,
  raises an \<^verbatim>\<open>OSError\<close> (missing file, permission denied, a directory), or raises
  an exception that is not an \<^verbatim>\<open>OSError\<close> (a \<^verbatim>\<open>UnicodeDecodeError\<close> on bytes
  that are not text, a \<^verbatim>\<open>ValueError\<close> on an embedded null byte). The string is the
  exception's \<^verbatim>\<open>str()\<close>.
\<close>

datatype read_result = Contents string | Raise_OSError string | Raise_Other string

record os_env =
  os_path_abspath :: "string \<Rightarrow> string"
  os_path_isdir :: "string \<Rightarrow> bool"
  open_read :: "string \<Rightarrow> read_result"
  guess_type :: "string \<Rightarrow> string option \<times> string option"

text \<open>\<^verbatim>\<open>s.startswith(p)\<close> and \<^verbatim>\<open>s.endswith(p)\<close>.\<close>

definition startswith :: "string \<Rightarrow> string \<Rightarrow> bool" where
  "startswith s p = prefix p s"

definition endswith :: "string \<Rightarrow> string \<Rightarrow> bool" where
  "endswith s p = suffix p s"

text \<open>
  \<^verbatim>\<open>s.split(sep)\<close> for a one-character separator: the pieces between the separators,
  never an empty list.
\<close>

fun split :: "char \<Rightarrow> string \<Rightarrow> string list" where
  "split sep [] = [[]]"
| "split sep (c # cs) =
     (if c = sep then [] # split sep cs
      else (case split sep cs of
              [] \<Rightarrow> [[c]]
            | p # ps \<Rightarrow> (c # p) # ps))"

text \<open>\<^verbatim>\<open>sep.join(parts)\<close>.\<close>

fun join :: "string \<Rightarrow> string list \<Rightarrow> string" where
  "join sep [] = []"
| "join sep [p] = p"
| "join sep (p # q # ps) = p @ sep @ join sep (q # ps)"

text \<open>
  \<^verbatim>\<open>os.path.join(a, b)\<close> on POSIX, for two arguments: an absolute second argument
  discards the first; otherwise the two are concatenated, with a separator between them
  unless the first is empty or already ends in one.
\<close>

definition os_path_join :: "string \<Rightarrow> string \<Rightarrow> string" where
  "os_path_join a b =
     (if startswith b ''/'' then b
      else if a = [] \<or> endswith a ''/'' then a @ b
      else a @ ''/'' @ b)"

subsection \<open>Component declarations\<close>

record custom_component =
  comp_name :: string
  comp_path :: "string option"
  comp_url :: "string option"

text \<open>\<^verbatim>\<open>CustomComponent.__init__\<close>: exactly one of path and url.\<close>

definition CustomComponent ::
  "string \<Rightarrow> string option \<Rightarrow> string option \<Rightarrow> py_error + custom_component" where
  "CustomComponent name path url =
     (if (path = None \<and> url = None) \<or> (path \<noteq> None \<and> url \<noteq> None)
      then Inl (StreamlitAPIException ''Either 'path' or 'url' must be set, but not both.'')
      else Inr \<lparr>comp_name = name, comp_path = path, comp_url = url\<rparr>)"

text \<open>The \<^verbatim>\<open>abspath\<close> property.\<close>

definition abspath :: "os_env \<Rightarrow> custom_component \<Rightarrow> string option" where
  "abspath os self =
     (case comp_path self of
        None \<Rightarrow> None
      | Some p \<Rightarrow> Some (os_path_abspath os p))"

text \<open>\<^verbatim>\<open>__eq__\<close> and \<^verbatim>\<open>__ne__\<close>, on two declarations.\<close>

definition component_eq :: "custom_component \<Rightarrow> custom_component \<Rightarrow> bool" where
  "component_eq self other \<longleftrightarrow>
     comp_name self = comp_name other \<and>
     comp_path self = comp_path other \<and>
     comp_url self = comp_url other"

definition component_ne :: "custom_component \<Rightarrow> custom_component \<Rightarrow> bool" where
  "component_ne self other \<longleftrightarrow> \<not> component_eq self other"

text \<open>\<^verbatim>\<open>__str__\<close>. A declaration built by the constructor has a path or a url.\<close>

definition component_str :: "custom_component \<Rightarrow> string" where
  "component_str self =
     [CHR 0x27] @ comp_name self @ [CHR 0x27] @ '': '' @
     (case comp_path self of
        Some p \<Rightarrow> p
      | None \<Rightarrow> (case comp_url self of Some u \<Rightarrow> u | None \<Rightarrow> ''None''))"

subsection \<open>The registry\<close>

text \<open>
  The registry's dictionary, and next to it the records the module's logger has
  received, oldest first.
\<close>

record registry =
  components :: "string \<rightharpoonup> custom_component"
  log :: "log_record list"

definition new_registry :: registry where
  "new_registry = \<lparr>components = Map.empty, log = []\<rparr>"

text \<open>
  \<^verbatim>\<open>register_component\<close>. The directory check raises before the dictionary is
  touched; the returned registry is the state the call leaves behind, also when it
  raises.
\<close>

definition register_component ::
  "os_env \<Rightarrow> custom_component \<Rightarrow> registry \<Rightarrow> (py_error + unit) \<times> registry" where
  "register_component os component reg =
     (let ap = abspath os component in
      if (case ap of None \<Rightarrow> False | Some a \<Rightarrow> \<not> os_path_isdir os a)
      then (Inl (StreamlitAPIException
              (''No such component directory: '' @ [CHR 0x27] @
               (case ap of None \<Rightarrow> ''None'' | Some a \<Rightarrow> a) @ [CHR 0x27])), reg)
      else
        let existing = components reg (comp_name component);
            reg1 = reg\<lparr>components := (components reg)(comp_name component \<mapsto> component)\<rparr>;
            reg2 = (case existing of
                      None \<Rightarrow> reg1
                    | Some ex \<Rightarrow>
                        if component_ne component ex
                        then reg1\<lparr>log := log reg1 @
                               [Log_Warning (component_str component @
                                  '' overriding previously-registered '' @ component_str ex)]\<rparr>
                        else reg1)
        in (Inr (),
            reg2\<lparr>log := log reg2 @
              [Log_Info (''Registered component '' @ component_str component)]\<rparr>))"

text \<open>\<^verbatim>\<open>get_component_path\<close>.\<close>

definition get_component_path :: "os_env \<Rightarrow> registry \<Rightarrow> string \<Rightarrow> string option" where
  "get_component_path os reg name =
     (case components reg name of
        Some component \<Rightarrow> abspath os component
      | None \<Rightarrow> None)"

text \<open>
  \<^verbatim>\<open>declare_component\<close>. Its first four steps find the caller's module by stack
  inspection and only compute the component's name, which is the argument
  \<open>component_name\<close> here; the rest builds the declaration and registers it.
\<close>

definition declare_component ::
  "os_env \<Rightarrow> string \<Rightarrow> string option \<Rightarrow> string option \<Rightarrow> registry \<Rightarrow>
   (py_error + custom_component) \<times> registry" where
  "declare_component os component_name path url reg =
     (case CustomComponent component_name path url of
        Inl e \<Rightarrow> (Inl e, reg)
      | Inr component \<Rightarrow>
          (case register_component os component reg of
             (Inl e, reg') \<Rightarrow> (Inl e, reg')
           | (Inr u, reg') \<Rightarrow> (Inr component, reg')))"

subsection \<open>The asset request handler\<close>

text \<open>
  What the handler has produced so far: the chunks written, the status (200 until it is
  set) and the headers set by name. Only what this file does to them is modelled; the
  web framework's own defaults are whatever the initial state holds.
\<close>

record handler =
  write_buffer :: string
  status :: nat
  headers :: "string \<rightharpoonup> string"

definition new_handler :: handler where
  "new_handler = \<lparr>write_buffer = [], status = 200, headers = Map.empty\<rparr>"

definition handler_write :: "string \<Rightarrow> handler \<Rightarrow> handler" where
  "handler_write chunk h = h\<lparr>write_buffer := write_buffer h @ chunk\<rparr>"

definition set_status :: "nat \<Rightarrow> handler \<Rightarrow> handler" where
  "set_status code h = h\<lparr>status := code\<rparr>"

definition set_header :: "string \<Rightarrow> string \<Rightarrow> handler \<Rightarrow> handler" where
  "set_header name v h = h\<lparr>headers := (headers h)(name \<mapsto> v)\<rparr>"

text \<open>\<^verbatim>\<open>set_extra_headers\<close>.\<close>

definition set_extra_headers :: "string \<Rightarrow> handler \<Rightarrow> handler" where
  "set_extra_headers path h =
     (let is_index_url = (length path = 0) in
      if is_index_url \<or> endswith path ''.html''
      then set_header ''Cache-Control'' ''no-cache'' h
      else set_header ''Cache-Control'' ''public'' h)"

text \<open>
  \<^verbatim>\<open>set_default_headers\<close>; the argument is what
  \<^verbatim>\<open>allow_cross_origin_requests()\<close> returns.
\<close>

definition set_default_headers :: "bool \<Rightarrow> handler \<Rightarrow> handler" where
  "set_default_headers allow_cross_origin_requests h =
     (if allow_cross_origin_requests
      then set_header ''Access-Control-Allow-Origin'' ''*'' h
      else h)"

text \<open>\<^verbatim>\<open>options\<close>.\<close>

definition options :: "handler \<Rightarrow> handler" where
  "options h = set_status 204 h"

text \<open>\<^verbatim>\<open>get_content_type\<close>, over the pair \<^verbatim>\<open>mimetypes.guess_type\<close> returns.\<close>

definition get_content_type :: "os_env \<Rightarrow> string \<Rightarrow> string" where
  "get_content_type os ap =
     (case guess_type os ap of (mime_type, encoding) \<Rightarrow>
        if encoding = Some ''gzip'' then ''application/gzip''
        else if encoding \<noteq> None then ''application/octet-stream''
        else (case mime_type of
                Some m \<Rightarrow> m
              | None \<Rightarrow> ''application/octet-stream''))"

text \<open>\<^verbatim>\<open>get_url\<close>.\<close>

definition get_url :: "string \<Rightarrow> string" where
  "get_url file_id = ''components/'' @ file_id"

text \<open>
  What one call of \<^verbatim>\<open>get\<close> leaves behind: the handler, the paths it passed to
  \<^verbatim>\<open>open\<close> (in order), the records it logged, and the exception that left the
  method, if one did.
\<close>

record get_outcome =
  out_handler :: handler
  out_opened :: "string list"
  out_log :: "log_record list"
  out_raised :: "string option"

text \<open>The component name and the relative file name \<^verbatim>\<open>get\<close> takes from a request path.\<close>

definition component_name_of :: "string \<Rightarrow> string" where
  "component_name_of path = (case split CHR ''/'' path of [] \<Rightarrow> [] | p # ps \<Rightarrow> p)"

definition filename_of :: "string \<Rightarrow> string" where
  "filename_of path = join ''/'' (tl (split CHR ''/'' path))"

text \<open>\<^verbatim>\<open>get\<close>.\<close>

definition get :: "os_env \<Rightarrow> registry \<Rightarrow> handler \<Rightarrow> string \<Rightarrow> get_outcome" where
  "get os reg h path =
     (let component_name = component_name_of path;
          component_root = get_component_path os reg component_name
      in (case component_root of
            None \<Rightarrow>
              \<lparr>out_handler = set_status 404 (handler_write (path @ '' not found'') h),
               out_opened = [], out_log = [], out_raised = None\<rparr>
          | Some root \<Rightarrow>
              (let filename = filename_of path;
                   ap = os_path_join root filename;
                   lg = [Log_Debug (''ComponentRequestHandler: GET: '' @ path @ '' -> '' @ ap)]
               in (case open_read os ap of
                     Raise_OSError e \<Rightarrow>
                       \<lparr>out_handler =
                          set_status 404 (handler_write (path @ '' read error: '' @ e) h),
                        out_opened = [ap], out_log = lg, out_raised = None\<rparr>
                   | Raise_Other e \<Rightarrow>
                       \<lparr>out_handler = h, out_opened = [ap], out_log = lg,
                        out_raised = Some e\<rparr>
                   | Contents contents \<Rightarrow>
                       \<lparr>out_handler =
                          set_extra_headers path
                            (set_header ''Content-Type'' (get_content_type os ap)
                               (handler_write contents h)),
                        out_opened = [ap], out_log = lg, out_raised = None\<rparr>))))"

subsection \<open>Instance calls\<close>

text \<open>
  The part of an element this file writes: the \<^verbatim>\<open>component_instance\<close> message with
  its name, url, JSON arguments and tabular arguments. A fresh message has empty strings
  and no tabular arguments. \<open>'b\<close> is the type of an encoded table.
\<close>

record 'b args_dataframe =
  adf_key :: string
  adf_value :: 'b

record 'b element =
  ci_component_name :: string
  ci_url :: string
  ci_args_json :: string
  ci_args_dataframe :: "'b args_dataframe list"

definition new_element :: "'b element" where
  "new_element =
     \<lparr>ci_component_name = [], ci_url = [], ci_args_json = [], ci_args_dataframe = []\<rparr>"

text \<open>
  What \<^verbatim>\<open>marshall_component\<close> returns: the sentinel \<^verbatim>\<open>NoValue\<close> or a Python
  value (which, as far as the type goes, could be \<^verbatim>\<open>None\<close>).
\<close>

datatype 'v marshalled = NoValue | Returned "'v pyval"

text \<open>
  The steps of \<^verbatim>\<open>marshall_component\<close> that the ordering rule is about, recorded in
  the order they happen: the arguments were written, leaving the element as given; the
  value store was called with this element type, element, user key and function name.
\<close>

datatype ('v, 'b) event =
    Args_Marshalled "'b element"
  | Value_Requested string "'b element" "'v pyval" string

record ('v, 'b) marshall_outcome =
  mo_value :: "'v marshalled"
  mo_element :: "'b element"
  mo_trace :: "('v, 'b) event list"

text \<open>
  The collaborators of an instance call: \<^verbatim>\<open>type_util.is_dataframe_like\<close>,
  \<^verbatim>\<open>json.dumps\<close> (\<open>Inl\<close> when it raises, with the exception's text),
  \<^verbatim>\<open>str()\<close> as an f-string applies it, \<^verbatim>\<open>arrow_table.marshall\<close> (the encoded
  table it writes), \<^verbatim>\<open>_get_widget_ui_value\<close> (the value it returns and the element
  as it leaves it), \<^verbatim>\<open>streamlit._main\<close>, and \<^verbatim>\<open>_enqueue_new_element_delta\<close> of a
  delta generator, acting on a state \<open>'q\<close> and returning an \<open>'r\<close>. The encoder and the
  value store are taken to return.
\<close>

record ('v, 'b, 'q, 'r) collaborators =
  is_dataframe_like :: "'v pyval \<Rightarrow> bool"
  json_dumps :: "(string \<times> 'v pyval) list \<Rightarrow> string + string"
  py_str :: "'v pyval \<Rightarrow> string"
  arrow_table_marshall :: "'v pyval \<Rightarrow> 'b"
  get_widget_ui_value ::
    "string \<Rightarrow> 'b element \<Rightarrow> 'v pyval \<Rightarrow> string \<Rightarrow> 'v pyval \<times> 'b element"
  streamlit_main :: "'v pyval"
  enqueue_new_element_delta ::
    "'v pyval \<Rightarrow> ('b element \<Rightarrow> ('v, 'b) marshall_outcome) \<Rightarrow> string \<Rightarrow> 'q \<Rightarrow> 'r \<times> 'q"

text \<open>
  \<^verbatim>\<open>d[k] = v\<close> on a dictionary kept as the list of its items in insertion order: a
  key that is present keeps its place.
\<close>

fun dict_set :: "(string \<times> 'a) list \<Rightarrow> string \<Rightarrow> 'a \<Rightarrow> (string \<times> 'a) list" where
  "dict_set [] k v = [(k, v)]"
| "dict_set ((k', v') # d) k v =
     (if k' = k then (k, v) # d else (k', v') # dict_set d k v)"

text \<open>
  The loop of \<^verbatim>\<open>create_instance\<close> over \<^verbatim>\<open>kwargs.items()\<close>; the result is the
  pair \<^verbatim>\<open>(args_json, args_df)\<close>.
\<close>

definition partition_kwargs ::
  "('v, 'b, 'q, 'r) collaborators \<Rightarrow> (string \<times> 'v pyval) list \<Rightarrow>
   (string \<times> 'v pyval) list \<times> (string \<times> 'v pyval) list" where
  "partition_kwargs env kwargs =
     foldl (\<lambda>(args_json, args_df) (arg_name, arg_val).
              if is_dataframe_like env arg_val
              then (args_json, dict_set args_df arg_name arg_val)
              else (dict_set args_json arg_name arg_val, args_df))
           ([], []) kwargs"

text \<open>\<^verbatim>\<open>marshall_element_args\<close>, the closure inside \<^verbatim>\<open>marshall_component\<close>.\<close>

definition marshall_element_args ::
  "('v, 'b, 'q, 'r) collaborators \<Rightarrow> string \<Rightarrow> (string \<times> 'v pyval) list \<Rightarrow>
   'b element \<Rightarrow> 'b element" where
  "marshall_element_args env serialized_args_json args_df el =
     foldl (\<lambda>e (k, v).
              e\<lparr>ci_args_dataframe := ci_args_dataframe e @
                   [\<lparr>adf_key = k, adf_value = arrow_table_marshall env v\<rparr>]\<rparr>)
           (el\<lparr>ci_args_json := serialized_args_json\<rparr>) args_df"

text \<open>\<^verbatim>\<open>marshall_component\<close>, the closure \<^verbatim>\<open>create_instance\<close> hands to the queue.\<close>

definition marshall_component ::
  "('v, 'b, 'q, 'r) collaborators \<Rightarrow> custom_component \<Rightarrow> string \<Rightarrow>
   (string \<times> 'v pyval) list \<Rightarrow> 'v pyval \<Rightarrow> 'v pyval \<Rightarrow> 'b element \<Rightarrow>
   ('v, 'b) marshall_outcome" where
  "marshall_component env self serialized_args_json args_df default_val key el =
     (let e1 = el\<lparr>ci_component_name := comp_name self\<rparr>;
          e2 = (case comp_url self of None \<Rightarrow> e1 | Some u \<Rightarrow> e1\<lparr>ci_url := u\<rparr>);
          e3 = (if key = PyNone
                then marshall_element_args env serialized_args_json args_df e2 else e2);
          t3 = (if key = PyNone then [Args_Marshalled e3] else []);
          (widget_value, e4) =
            get_widget_ui_value env ''component_instance'' e3 key (comp_name self);
          t4 = t3 @ [Value_Requested ''component_instance'' e3 key (comp_name self)];
          e5 = (if key \<noteq> PyNone
                then marshall_element_args env serialized_args_json args_df e4 else e4);
          t5 = (if key \<noteq> PyNone then t4 @ [Args_Marshalled e5] else t4);
          widget_value' = (if widget_value = PyNone then default_val else widget_value)
      in \<lparr>mo_value = (if widget_value' \<noteq> PyNone then Returned widget_value' else NoValue),
          mo_element = e5,
          mo_trace = t5\<rparr>)"

text \<open>\<^verbatim>\<open>create_instance\<close>, on the queue state \<open>q\<close>.\<close>

definition create_instance ::
  "('v, 'b, 'q, 'r) collaborators \<Rightarrow> custom_component \<Rightarrow> 'v pyval list \<Rightarrow>
   'v pyval \<Rightarrow> 'v pyval \<Rightarrow> 'v pyval \<Rightarrow> (string \<times> 'v pyval) list \<Rightarrow> 'q \<Rightarrow>
   (py_error + 'r) \<times> 'q" where
  "create_instance env self args loc default_val key kwargs q =
     (case args of
        a # as \<Rightarrow>
          (Inl (MarshallComponentException
                  (''Argument '' @ [CHR 0x27] @ py_str env a @ [CHR 0x27] @ '' needs a label'')
                  None), q)
      | [] \<Rightarrow>
          (let loc' = (if loc = PyNone then streamlit_main env else loc);
               (args_json, args_df) = partition_kwargs env kwargs
           in (case json_dumps env args_json of
                 Inl e \<Rightarrow>
                   (Inl (MarshallComponentException
                           ''Could not convert component args to JSON'' (Some e)), q)
               | Inr serialized_args_json \<Rightarrow>
                   (case enqueue_new_element_delta env loc'
                           (marshall_component env self serialized_args_json args_df
                              default_val key)
                           ''component'' q of
                      (result, q') \<Rightarrow> (Inr result, q')))))"

text \<open>\<^verbatim>\<open>__call__\<close>, an alias.\<close>

definition component_call ::
  "('v, 'b, 'q, 'r) collaborators \<Rightarrow> custom_component \<Rightarrow> 'v pyval list \<Rightarrow>
   'v pyval \<Rightarrow> 'v pyval \<Rightarrow> 'v pyval \<Rightarrow> (string \<times> 'v pyval) list \<Rightarrow> 'q \<Rightarrow>
   (py_error + 'r) \<times> 'q" where
  "component_call env self args loc default_val key kwargs q =
     create_instance env self args loc default_val key kwargs q"

text \<open>
  How a call site's keyword arguments meet the signature
  \<^verbatim>\<open>(self, *args, loc=None, default=None, key=None, **kwargs)\<close>: a keyword named
  after one of the three keyword-only parameters is bound to it, a parameter without
  such a keyword gets its default \<^verbatim>\<open>None\<close>, and \<^verbatim>\<open>kwargs\<close> collects the
  remaining keywords in order.
\<close>

definition keyword_or_default :: "(string \<times> 'v pyval) list \<Rightarrow> string \<Rightarrow> 'v pyval" where
  "keyword_or_default keywords n =
     (case map_of keywords n of None \<Rightarrow> PyNone | Some v \<Rightarrow> v)"

definition remaining_keywords ::
  "(string \<times> 'v pyval) list \<Rightarrow> (string \<times> 'v pyval) list" where
  "remaining_keywords keywords =
     filter (\<lambda>(n, v). n \<noteq> ''loc'' \<and> n \<noteq> ''default'' \<and> n \<noteq> ''key'') keywords"

text \<open>An instance call as the user writes it: positional arguments and keywords.\<close>

definition instance_call ::
  "('v, 'b, 'q, 'r) collaborators \<Rightarrow> custom_component \<Rightarrow> 'v pyval list \<Rightarrow>
   (string \<times> 'v pyval) list \<Rightarrow> 'q \<Rightarrow> (py_error + 'r) \<times> 'q" where
  "instance_call env self args keywords q =
     component_call env self args
       (keyword_or_default keywords ''loc'')
       (keyword_or_default keywords ''default'')
       (keyword_or_default keywords ''key'')
       (remaining_keywords keywords) q"

subsection \<open>Concrete inputs\<close>

text \<open>
  A small world to run the definitions in: one directory \<^verbatim>\<open>/srv/c\<close> with an HTML
  page, a script and an image that is not text; paths are already absolute, so
  \<^verbatim>\<open>os.path.abspath\<close> leaves them alone.
\<close>

definition example_os :: os_env where
  "example_os =
     \<lparr>os_path_abspath = (\<lambda>p. p),
      os_path_isdir = (\<lambda>p. p = ''/srv/c''),
      open_read = (\<lambda>p.
        if p = ''/srv/c/index.html'' then Contents ''<html></html>''
        else if p = ''/srv/c/main.js'' then Contents ''main()''
        else if p = ''/etc/passwd'' then Contents ''root:x:0:0''
        else if p = ''/srv/c/logo.png''
          then Raise_Other ''utf-8 codec cannot decode byte 0x89 in position 0''
        else if p = ''/srv/c/''
          then Raise_OSError ''[Errno 21] Is a directory: /srv/c/''
        else Raise_OSError ''[Errno 2] No such file or directory''),
      guess_type = (\<lambda>p.
        if endswith p ''.html'' then (Some ''text/html'', None) else (None, None))\<rparr>"

definition example_component :: custom_component where
  "example_component = \<lparr>comp_name = ''c'', comp_path = Some ''/srv/c'', comp_url = None\<rparr>"

definition example_url_component :: custom_component where
  "example_url_component =
     \<lparr>comp_name = ''u'', comp_path = None, comp_url = Some ''http://localhost:3001''\<rparr>"

definition example_registry :: registry where
  "example_registry =
     \<lparr>components = [''c'' \<mapsto> example_component, ''u'' \<mapsto> example_url_component],
      log = []\<rparr>"

text \<open>
  Collaborators over string values: one value counts as a table, the JSON encoder
  writes \<^verbatim>\<open>name:value;\<close> items, the value store has nothing to report and leaves the
  element alone, and the queue runs the builder on a fresh element, keeps the element
  and returns the builder's value.
\<close>

definition example_collaborators ::
  "(string, string, string element list, string marshalled) collaborators" where
  "example_collaborators =
     \<lparr>is_dataframe_like = (\<lambda>v. v = PyVal ''<DataFrame>''),
      json_dumps = (\<lambda>d. Inr (concat (map (\<lambda>(k, v).
        k @ '':'' @ (case v of PyNone \<Rightarrow> ''null'' | PyVal x \<Rightarrow> x) @ '';'') d))),
      py_str = (\<lambda>v. case v of PyNone \<Rightarrow> ''None'' | PyVal x \<Rightarrow> x),
      arrow_table_marshall = (\<lambda>v. ''<arrow>''),
      get_widget_ui_value = (\<lambda>t e k n. (PyNone, e)),
      streamlit_main = PyVal ''<main>'',
      enqueue_new_element_delta = (\<lambda>dg f t q.
        (mo_value (f new_element), q @ [mo_element (f new_element)]))\<rparr>"

text \<open>
  The same collaborators with a value store that holds what the frontend has reported
  for the widget: nothing yet (\<open>None\<close>) or its most recent value, which may be
  \<^verbatim>\<open>None\<close>. As the comment in \<^verbatim>\<open>marshall_component\<close> has it, the value it
  returns is \<^verbatim>\<open>None\<close> or that most recent value.
\<close>

definition reporting_collaborators ::
  "string pyval option \<Rightarrow>
   (string, string, string element list, string marshalled) collaborators" where
  "reporting_collaborators reported =
     example_collaborators
       \<lparr>get_widget_ui_value :=
          (\<lambda>t e k n. (case reported of None \<Rightarrow> PyNone | Some v \<Rightarrow> v, e))\<rparr>"

section \<open>Properties\<close>

subsection \<open>Strings and request paths\<close>

lemma split_not_Nil: "split sep s \<noteq> []"
  by (induction s) (auto split: list.splits)

lemma join_split: "join [sep] (split sep s) = s"
proof (induction s)
  case Nil
  show ?case by simp
next
  case (Cons c cs)
  show ?case
  proof (cases "c = sep")
    case True
    with Cons split_not_Nil [of sep cs] show ?thesis
      by (cases "split sep cs") auto
  next
    case False
    with Cons split_not_Nil [of sep cs] show ?thesis
      by (cases "split sep cs"; cases "tl (split sep cs)") auto
  qed
qed

text \<open>
  A request path with a non-empty file name is the component name, a slash and the file
  name.
\<close>

lemma path_decomposition:
  assumes "filename_of path \<noteq> []"
  shows "path = component_name_of path @ ''/'' @ filename_of path"
proof -
  obtain p ps where sp: "split CHR ''/'' path = p # ps"
    using split_not_Nil [of "CHR ''/''" path] by (cases "split CHR ''/'' path") auto
  with assms obtain q qs where ps: "ps = q # qs"
    by (cases ps) (auto simp: filename_of_def)
  have "join ''/'' (p # q # qs) = path"
    using join_split [of "CHR ''/''" path] sp ps by simp
  then show ?thesis
    using sp ps by (simp add: component_name_of_def filename_of_def)
qed

lemma endswith_html_after_slash:
  "endswith (n @ ''/'' @ f) ''.html'' \<longleftrightarrow> endswith f ''.html''"
  unfolding endswith_def
  by (auto simp: suffix_append suffix_Cons append_eq_Cons_conv Cons_eq_append_conv)

lemma endswith_html_filename:
  assumes "filename_of path \<noteq> []"
  shows "endswith path ''.html'' \<longleftrightarrow> endswith (filename_of path) ''.html''"
  using path_decomposition [OF assms]
    endswith_html_after_slash [of "component_name_of path" "filename_of path"]
  by simp

subsection \<open>The registry\<close>

lemma register_component_raises_iff:
  "(\<exists>e. fst (register_component os c reg) = Inl e) \<longleftrightarrow>
   (\<exists>p. comp_path c = Some p \<and> \<not> os_path_isdir os (os_path_abspath os p))"
  by (auto simp: register_component_def abspath_def Let_def split: option.splits)

lemma register_component_raises_unchanged:
  "fst (register_component os c reg) = Inl e \<Longrightarrow> snd (register_component os c reg) = reg"
  by (auto simp: register_component_def Let_def split: option.splits if_splits)

lemma register_component_components:
  "fst (register_component os c reg) = Inr u \<Longrightarrow>
   components (snd (register_component os c reg)) = (components reg)(comp_name c \<mapsto> c)"
  by (auto simp: register_component_def Let_def split: option.splits if_splits)

lemma component_eq_iff: "component_eq c ex \<longleftrightarrow> c = ex"
  by (auto simp: component_eq_def)

text \<open>
  C7. Declaring a component raises a configuration error exactly when both or neither
  of path and url are given, or the given path's absolute form is not an existing
  directory; a call that raises leaves the registry as it was; and a call with an
  existing local path returns the declaration, after which \<open>get_component_path\<close> gives
  the path's absolute form for its name.
\<close>

theorem declare_component_configuration_error:
  "((\<exists>msg. fst (declare_component os n path url reg) = Inl (StreamlitAPIException msg)) \<longleftrightarrow>
      (path = None \<and> url = None) \<or> (path \<noteq> None \<and> url \<noteq> None) \<or>
      (\<exists>p. path = Some p \<and> \<not> os_path_isdir os (os_path_abspath os p))) \<and>
   ((\<exists>e. fst (declare_component os n path url reg) = Inl e) \<longrightarrow>
      snd (declare_component os n path url reg) = reg) \<and>
   (path = Some p \<and> url = None \<and> os_path_isdir os (os_path_abspath os p) \<longrightarrow>
      fst (declare_component os n path url reg) =
        Inr \<lparr>comp_name = n, comp_path = Some p, comp_url = None\<rparr> \<and>
      get_component_path os (snd (declare_component os n path url reg)) n =
        Some (os_path_abspath os p))"
  by (auto simp: declare_component_def CustomComponent_def register_component_def
        get_component_path_def abspath_def Let_def
      split: option.splits if_splits sum.splits prod.splits)

theorem declare_component_configuration_error_witness:
  "os_path_isdir example_os (os_path_abspath example_os ''/srv/c'') \<and>
   fst (declare_component example_os ''c'' (Some ''/srv/c'') None new_registry) =
     Inr example_component \<and>
   get_component_path example_os
     (snd (declare_component example_os ''c'' (Some ''/srv/c'') None new_registry)) ''c'' =
     Some ''/srv/c'' \<and>
   fst (declare_component example_os ''c'' (Some ''/srv/d'') None example_registry) =
     Inl (StreamlitAPIException
           (''No such component directory: '' @ [CHR 0x27] @ ''/srv/d'' @ [CHR 0x27])) \<and>
   snd (declare_component example_os ''c'' (Some ''/srv/d'') None example_registry) =
     example_registry \<and>
   snd (declare_component example_os ''c'' None None example_registry) = example_registry"
  using declare_component_configuration_error
          [of example_os "''c''" "Some ''/srv/c''" None new_registry "''/srv/c''"]
        declare_component_configuration_error
          [of example_os "''c''" "Some ''/srv/d''" None example_registry]
        declare_component_configuration_error
          [of example_os "''c''" None None example_registry]
  by (simp add: example_os_def example_component_def declare_component_def
        CustomComponent_def register_component_def abspath_def)

text \<open>
  C8. A registration under a name that is already registered, whose directory check
  passes: the registry then maps the name to the new declaration; the log gains no
  warning when the new declaration equals the old one, and exactly one warning, made of
  the two declarations' texts, when it does not; the information record follows.
\<close>

theorem register_component_override:
  assumes "components reg (comp_name c) = Some ex"
      and "fst (register_component os c reg) = Inr ()"
  shows "components (snd (register_component os c reg)) (comp_name c) = Some c \<and>
         log (snd (register_component os c reg)) =
           log reg @
           (if component_eq c ex then []
            else [Log_Warning (component_str c @ '' overriding previously-registered '' @
                    component_str ex)]) @
           [Log_Info (''Registered component '' @ component_str c)]"
  using assms
  by (auto simp: register_component_def component_ne_def Let_def
      split: option.splits if_splits)

theorem register_component_override_witness:
  "components example_registry (comp_name example_component) = Some example_component \<and>
   fst (register_component example_os example_component example_registry) = Inr () \<and>
   components (snd (register_component example_os example_component example_registry)) ''c'' =
     Some example_component \<and>
   log (snd (register_component example_os example_component example_registry)) =
     [Log_Info ''Registered component 'c': /srv/c''] \<and>
   fst (register_component example_os (example_url_component\<lparr>comp_name := ''c''\<rparr>)
          example_registry) = Inr () \<and>
   components (snd (register_component example_os (example_url_component\<lparr>comp_name := ''c''\<rparr>)
          example_registry)) ''c'' = Some (example_url_component\<lparr>comp_name := ''c''\<rparr>) \<and>
   log (snd (register_component example_os (example_url_component\<lparr>comp_name := ''c''\<rparr>)
          example_registry)) =
     [Log_Warning
        ([CHR 0x27] @
         ''c': http://localhost:3001 overriding previously-registered 'c': /srv/c''),
      Log_Info ''Registered component 'c': http://localhost:3001'']"
  using register_component_override
          [of example_registry example_component example_component example_os]
        register_component_override
          [of example_registry "example_url_component\<lparr>comp_name := ''c''\<rparr>"
              example_component example_os]
  by (simp add: example_os_def example_component_def example_url_component_def
        example_registry_def register_component_def abspath_def component_eq_def
        component_ne_def component_str_def Let_def)

subsection \<open>The asset request handler\<close>

lemma get_absent:
  "get_component_path os reg (component_name_of path) = None \<Longrightarrow>
   get os reg h path =
     \<lparr>out_handler = h\<lparr>write_buffer := write_buffer h @ path @ '' not found'',
                       status := 404\<rparr>,
      out_opened = [], out_log = [], out_raised = None\<rparr>"
  by (simp add: get_def Let_def handler_write_def set_status_def)

lemma get_status_404_headers:
  "status h \<noteq> 404 \<Longrightarrow> status (out_handler (get os reg h path)) = 404 \<Longrightarrow>
   headers (out_handler (get os reg h path)) = headers h"
  by (auto simp: get_def Let_def handler_write_def set_status_def set_header_def
        set_extra_headers_def split: option.splits read_result.splits if_splits)

lemma get_contents_cache_control:
  assumes "get_component_path os reg (component_name_of path) = Some root"
      and "open_read os (os_path_join root (filename_of path)) = Contents c"
  shows "headers (out_handler (get os reg h path)) ''Cache-Control'' =
           Some (if path = [] \<or> endswith path ''.html'' then ''no-cache'' else ''public'')"
  using assms by (simp add: get_def Let_def set_extra_headers_def set_header_def)

text \<open>
  C3, as stated, fails. The request \<^verbatim>\<open>c\<close> names the component alone, so its relative
  file name is empty; the path opened is the component's directory, the read raises, and
  the response is a 404 with no \<^verbatim>\<open>Cache-Control\<close> header at all. Had the handler
  reached \<open>set_extra_headers\<close>, it would have tested the whole request path \<^verbatim>\<open>c\<close>,
  which is neither empty nor an HTML name, and set \<^verbatim>\<open>public\<close>.
\<close>

theorem get_name_alone_cache_counterexample:
  "filename_of ''c'' = [] \<and>
   out_opened (get example_os example_registry new_handler ''c'') = [''/srv/c/''] \<and>
   status (out_handler (get example_os example_registry new_handler ''c'')) = 404 \<and>
   headers (out_handler (get example_os example_registry new_handler ''c''))
     ''Cache-Control'' = None \<and>
   headers (set_extra_headers ''c'' new_handler) ''Cache-Control'' = Some ''public''"
  by (simp add: get_def Let_def get_component_path_def abspath_def example_os_def
        example_registry_def example_component_def component_name_of_def filename_of_def
        os_path_join_def startswith_def endswith_def suffix_to_prefix new_handler_def
        handler_write_def set_status_def set_header_def set_extra_headers_def)

text \<open>
  C3, amended. When the file is read and its relative name is not empty, the response
  carries \<^verbatim>\<open>Cache-Control: no-cache\<close> if the relative name ends in \<^verbatim>\<open>.html\<close> and
  \<^verbatim>\<open>Cache-Control: public\<close> otherwise; a call that turns a status other than 404 into
  404 sets no header.
\<close>

theorem get_cache_control:
  "(get_component_path os reg (component_name_of path) = Some root \<and>
    open_read os (os_path_join root (filename_of path)) = Contents c \<and>
    filename_of path \<noteq> [] \<longrightarrow>
      headers (out_handler (get os reg h path)) ''Cache-Control'' =
        Some (if endswith (filename_of path) ''.html'' then ''no-cache'' else ''public'')) \<and>
   (status h \<noteq> 404 \<and> status (out_handler (get os reg h path)) = 404 \<longrightarrow>
      headers (out_handler (get os reg h path)) = headers h)"
proof (intro conjI impI)
  assume a: "get_component_path os reg (component_name_of path) = Some root \<and>
    open_read os (os_path_join root (filename_of path)) = Contents c \<and>
    filename_of path \<noteq> []"
  then have nonempty: "path \<noteq> []"
    using path_decomposition [of path] by auto
  from a have "endswith path ''.html'' \<longleftrightarrow> endswith (filename_of path) ''.html''"
    by (simp add: endswith_html_filename)
  with a nonempty get_contents_cache_control [of os reg path root c h]
  show "headers (out_handler (get os reg h path)) ''Cache-Control'' =
        Some (if endswith (filename_of path) ''.html'' then ''no-cache'' else ''public'')"
    by simp
next
  assume "status h \<noteq> 404 \<and> status (out_handler (get os reg h path)) = 404"
  then show "headers (out_handler (get os reg h path)) = headers h"
    by (simp add: get_status_404_headers)
qed

theorem get_cache_control_witness:
  "get_component_path example_os example_registry (component_name_of ''c/index.html'') =
     Some ''/srv/c'' \<and>
   open_read example_os (os_path_join ''/srv/c'' (filename_of ''c/index.html'')) =
     Contents ''<html></html>'' \<and>
   filename_of ''c/index.html'' = ''index.html'' \<and>
   headers (out_handler (get example_os example_registry new_handler ''c/index.html''))
     ''Cache-Control'' = Some ''no-cache'' \<and>
   open_read example_os (os_path_join ''/srv/c'' (filename_of ''c/main.js'')) =
     Contents ''main()'' \<and>
   headers (out_handler (get example_os example_registry new_handler ''c/main.js''))
     ''Cache-Control'' = Some ''public'' \<and>
   status new_handler = 200 \<and>
   status (out_handler (get example_os example_registry new_handler ''c/missing.css'')) = 404 \<and>
   headers (out_handler (get example_os example_registry new_handler ''c/missing.css'')) =
     headers new_handler"
  using get_cache_control
          [of example_os example_registry "''c/index.html''" "''/srv/c''" "''<html></html>''"
              new_handler]
        get_cache_control
          [of example_os example_registry "''c/main.js''" "''/srv/c''" "''main()''"
              new_handler]
        get_cache_control
          [of example_os example_registry "''c/missing.css''" "''/srv/c''" "''''" new_handler]
  by (simp add: get_def Let_def get_component_path_def abspath_def example_os_def
        example_registry_def example_component_def component_name_of_def filename_of_def
        os_path_join_def startswith_def endswith_def suffix_to_prefix new_handler_def
        handler_write_def set_status_def set_header_def set_extra_headers_def)

text \<open>
  C4 at a failing input. The component \<^verbatim>\<open>c\<close> is served from \<^verbatim>\<open>/srv/c\<close>. The
  request \<^verbatim>\<open>c//etc/passwd\<close> has the relative name \<^verbatim>\<open>/etc/passwd\<close>, which the join
  takes as it is: the file opened and served lies outside the component's directory.
  The request \<^verbatim>\<open>c/../../etc/passwd\<close> reaches the open call with its parent segments
  in place.
\<close>

theorem get_path_traversal:
  "get_component_path example_os example_registry ''c'' = Some ''/srv/c'' \<and>
   out_opened (get example_os example_registry new_handler ''c//etc/passwd'') =
     [''/etc/passwd''] \<and>
   startswith ''/etc/passwd'' ''/srv/c'' = False \<and>
   status (out_handler (get example_os example_registry new_handler ''c//etc/passwd'')) = 200 \<and>
   write_buffer (out_handler (get example_os example_registry new_handler ''c//etc/passwd'')) =
     ''root:x:0:0'' \<and>
   out_opened (get example_os example_registry new_handler ''c/../../etc/passwd'') =
     [''/srv/c/../../etc/passwd'']"
  by (simp add: get_def Let_def get_component_path_def abspath_def example_os_def
        example_registry_def example_component_def component_name_of_def filename_of_def
        os_path_join_def startswith_def endswith_def suffix_to_prefix new_handler_def
        handler_write_def set_status_def set_header_def set_extra_headers_def)

text \<open>
  C5 at a failing input. The image \<^verbatim>\<open>logo.png\<close> is not text, so reading it in text
  mode raises an exception that is not an \<^verbatim>\<open>OSError\<close>. The handler's
  \<^verbatim>\<open>except OSError\<close> does not catch it: nothing is written, the status is not set to
  404, and the exception leaves \<open>get\<close>.
\<close>

theorem get_decode_error_propagates:
  "get_component_path example_os example_registry (component_name_of ''c/logo.png'') =
     Some ''/srv/c'' \<and>
   out_opened (get example_os example_registry new_handler ''c/logo.png'') =
     [''/srv/c/logo.png''] \<and>
   out_raised (get example_os example_registry new_handler ''c/logo.png'') =
     Some ''utf-8 codec cannot decode byte 0x89 in position 0'' \<and>
   status (out_handler (get example_os example_registry new_handler ''c/logo.png'')) = 200 \<and>
   write_buffer (out_handler (get example_os example_registry new_handler ''c/logo.png'')) = []"
  by (simp add: get_def Let_def get_component_path_def abspath_def example_os_def
        example_registry_def example_component_def component_name_of_def filename_of_def
        os_path_join_def startswith_def endswith_def suffix_to_prefix new_handler_def)

text \<open>
  The sibling path: when reading the joined path raises an \<^verbatim>\<open>OSError\<close>, the handler
  appends the request path, \<^verbatim>\<open>read error:\<close> and the error's text to what it has
  written, sets the status to 404, changes nothing else, and no exception leaves it.
\<close>

lemma get_oserror_404:
  assumes "get_component_path os reg (component_name_of path) = Some root"
      and "open_read os (os_path_join root (filename_of path)) = Raise_OSError e"
  shows "out_handler (get os reg h path) =
           h\<lparr>write_buffer := write_buffer h @ path @ '' read error: '' @ e, status := 404\<rparr> \<and>
         out_raised (get os reg h path) = None"
  using assms by (simp add: get_def Let_def handler_write_def set_status_def)

lemma get_oserror_404_example:
  "out_handler (get example_os example_registry new_handler ''c/missing.css'') =
     \<lparr>write_buffer = ''c/missing.css read error: [Errno 2] No such file or directory'',
      status = 404, headers = Map.empty\<rparr> \<and>
   out_raised (get example_os example_registry new_handler ''c/missing.css'') = None"
  using get_oserror_404
          [of example_os example_registry "''c/missing.css''" "''/srv/c''"
              "''[Errno 2] No such file or directory''" new_handler]
  by (simp add: get_component_path_def abspath_def example_os_def
        example_registry_def example_component_def component_name_of_def filename_of_def
        os_path_join_def startswith_def endswith_def suffix_to_prefix new_handler_def)

text \<open>
  C6. When the first segment of the request path names no registered component, or a
  component declared with a url and no path, the lookup gives nothing and the handler
  appends the request path and \<^verbatim>\<open>not found\<close> to what it has written, sets the status
  to 404, and opens no file.
\<close>

theorem get_unknown_or_url_component:
  assumes "components reg (component_name_of path) = None \<or>
           (\<exists>c. components reg (component_name_of path) = Some c \<and>
                comp_path c = None \<and> comp_url c \<noteq> None)"
  shows "get_component_path os reg (component_name_of path) = None \<and>
         get os reg h path =
           \<lparr>out_handler = h\<lparr>write_buffer := write_buffer h @ path @ '' not found'',
                             status := 404\<rparr>,
            out_opened = [], out_log = [], out_raised = None\<rparr>"
proof -
  from assms have absent: "get_component_path os reg (component_name_of path) = None"
    by (auto simp: get_component_path_def abspath_def)
  then show ?thesis
    by (simp add: get_absent)
qed

theorem get_unknown_or_url_component_witness:
  "components example_registry (component_name_of ''x/index.html'') = None \<and>
   get example_os example_registry new_handler ''x/index.html'' =
     \<lparr>out_handler =
        \<lparr>write_buffer = ''x/index.html not found'', status = 404, headers = Map.empty\<rparr>,
      out_opened = [], out_log = [], out_raised = None\<rparr> \<and>
   components example_registry (component_name_of ''u/index.html'') =
     Some example_url_component \<and>
   comp_path example_url_component = None \<and>
   comp_url example_url_component = Some ''http://localhost:3001'' \<and>
   get example_os example_registry new_handler ''u/index.html'' =
     \<lparr>out_handler =
        \<lparr>write_buffer = ''u/index.html not found'', status = 404, headers = Map.empty\<rparr>,
      out_opened = [], out_log = [], out_raised = None\<rparr>"
  using get_unknown_or_url_component
          [of example_registry "''x/index.html''" example_os new_handler]
        get_unknown_or_url_component
          [of example_registry "''u/index.html''" example_os new_handler]
  by (simp add: example_registry_def example_url_component_def component_name_of_def
        new_handler_def)

subsection \<open>Instance calls\<close>

lemma foldl_append_args_dataframe:
  "foldl (\<lambda>e (k, v). e\<lparr>ci_args_dataframe := ci_args_dataframe e @ [f k v]\<rparr>) e0 kvs =
   e0\<lparr>ci_args_dataframe := ci_args_dataframe e0 @ map (\<lambda>(k, v). f k v) kvs\<rparr>"
  by (induction kvs arbitrary: e0) (auto split: prod.splits)

text \<open>
  Writing the arguments sets the JSON blob and appends one tabular entry per item, each
  under its argument's name, in order.
\<close>

lemma marshall_element_args_eq:
  "marshall_element_args env s args_df el =
     el\<lparr>ci_args_json := s,
        ci_args_dataframe := ci_args_dataframe el @
          map (\<lambda>(k, v). \<lparr>adf_key = k, adf_value = arrow_table_marshall env v\<rparr>) args_df\<rparr>"
  unfolding marshall_element_args_def
  by (simp add: foldl_append_args_dataframe
        [where f = "\<lambda>k v. \<lparr>adf_key = k, adf_value = arrow_table_marshall env v\<rparr>"])

text \<open>
  What an instance call without positional arguments does once its JSON arguments are
  encoded: it hands the queue of the chosen delta generator the builder
  \<open>marshall_component\<close>, closed over the encoded JSON, the tabular arguments, the
  default and the key, and returns what the queue returns.
\<close>

lemma create_instance_enqueues:
  "json_dumps env (fst (partition_kwargs env kwargs)) = Inr s \<Longrightarrow>
   create_instance env self [] loc d key kwargs q =
     (case enqueue_new_element_delta env (if loc = PyNone then streamlit_main env else loc)
             (marshall_component env self s (snd (partition_kwargs env kwargs)) d key)
             ''component'' q of
        (result, q') \<Rightarrow> (Inr result, q'))"
proof -
  assume enc: "json_dumps env (fst (partition_kwargs env kwargs)) = Inr s"
  obtain aj ad where part: "partition_kwargs env kwargs = (aj, ad)"
    by (cases "partition_kwargs env kwargs")
  with enc show ?thesis
    by (simp add: create_instance_def Let_def)
qed

text \<open>A call that raises hands the queue nothing.\<close>

lemma create_instance_raises:
  "args \<noteq> [] \<or> (\<exists>e. json_dumps env (fst (partition_kwargs env kwargs)) = Inl e) \<Longrightarrow>
   \<exists>err. create_instance env self args loc d key kwargs q = (Inl err, q)"
proof -
  assume bad: "args \<noteq> [] \<or> (\<exists>e. json_dumps env (fst (partition_kwargs env kwargs)) = Inl e)"
  obtain aj ad where part: "partition_kwargs env kwargs = (aj, ad)"
    by (cases "partition_kwargs env kwargs")
  with bad show ?thesis
    by (cases args) (auto simp: create_instance_def Let_def)
qed

lemma instance_call_create_instance:
  "instance_call env self args kws q =
     create_instance env self args
       (keyword_or_default kws ''loc'') (keyword_or_default kws ''default'')
       (keyword_or_default kws ''key'') (remaining_keywords kws) q"
  by (simp only: instance_call_def component_call_def)

text \<open>The order of the builder's steps, for any arguments.\<close>

lemma marshall_component_trace:
  "let e0 = (case comp_url self of
               None \<Rightarrow> el\<lparr>ci_component_name := comp_name self\<rparr>
             | Some u \<Rightarrow> el\<lparr>ci_component_name := comp_name self, ci_url := u\<rparr>);
       written = (\<lambda>e. e\<lparr>ci_args_json := s,
                    ci_args_dataframe := ci_args_dataframe e @
                      map (\<lambda>(k, v). \<lparr>adf_key = k, adf_value = arrow_table_marshall env v\<rparr>)
                        args_df\<rparr>);
       store = (\<lambda>e. snd (get_widget_ui_value env ''component_instance'' e key (comp_name self)));
       r = marshall_component env self s args_df d key el
   in (key = PyNone \<longrightarrow>
         mo_trace r =
           [Args_Marshalled (written e0),
            Value_Requested ''component_instance'' (written e0) key (comp_name self)] \<and>
         mo_element r = store (written e0)) \<and>
      (key \<noteq> PyNone \<longrightarrow>
         mo_trace r =
           [Value_Requested ''component_instance'' e0 key (comp_name self),
            Args_Marshalled (written (store e0))] \<and>
         mo_element r = written (store e0))"
  by (auto simp: marshall_component_def marshall_element_args_eq Let_def
      split: prod.splits option.splits)

text \<open>The builder's value, for any answer of the value store.\<close>

lemma marshall_component_value:
  "Value_Requested t e k n \<in> set (mo_trace (marshall_component env self s args_df d key el)) \<Longrightarrow>
   mo_value (marshall_component env self s args_df d key el) =
     (if fst (get_widget_ui_value env t e k n) \<noteq> PyNone
      then Returned (fst (get_widget_ui_value env t e k n))
      else if d \<noteq> PyNone then Returned d else NoValue)"
  by (auto simp: marshall_component_def Let_def split: prod.splits if_splits)

lemma marshall_component_never_None:
  "mo_value (marshall_component env self s args_df d key el) \<noteq> Returned PyNone"
  by (simp add: marshall_component_def Let_def split: prod.splits)

text \<open>
  C1. Every instance call either raises and leaves the queue as it was (a positional
  argument, or JSON arguments that cannot be encoded), or hands the queue the builder
  \<open>marshall_component\<close> over the call's own encoded JSON \<open>s\<close>, tabular arguments, default
  and key. For that builder, on any element \<open>el\<close>: let \<open>e0\<close> be \<open>el\<close> with only the
  component's name and url written, and \<open>written e\<close> the element \<open>e\<close> with the JSON blob
  and the tabular blobs written. Without a user key the arguments are written first and
  the value store is called with \<open>written e0\<close>, so what it hashes holds the arguments.
  With a user key the value store is called first, with \<open>e0\<close>, whose argument fields are
  still those of the element handed in; the arguments are written afterwards, into the
  element the value store left, and are in the final element. A call through the
  keyword binding is such a call, with the key the keyword \<^verbatim>\<open>key\<close> gives.
\<close>

theorem create_instance_marshall_order:
  "(args \<noteq> [] \<or> (\<exists>e. json_dumps env (fst (partition_kwargs env kwargs)) = Inl e) \<longrightarrow>
      (\<exists>err. create_instance env self args loc d key kwargs q = (Inl err, q))) \<and>
   (args = [] \<and> json_dumps env (fst (partition_kwargs env kwargs)) = Inr s \<longrightarrow>
      create_instance env self args loc d key kwargs q =
        (case enqueue_new_element_delta env (if loc = PyNone then streamlit_main env else loc)
                (marshall_component env self s (snd (partition_kwargs env kwargs)) d key)
                ''component'' q of
           (result, q') \<Rightarrow> (Inr result, q')) \<and>
      (let e0 = (case comp_url self of
                   None \<Rightarrow> el\<lparr>ci_component_name := comp_name self\<rparr>
                 | Some u \<Rightarrow> el\<lparr>ci_component_name := comp_name self, ci_url := u\<rparr>);
           written = (\<lambda>e. e\<lparr>ci_args_json := s,
                        ci_args_dataframe := ci_args_dataframe e @
                          map (\<lambda>(k, v). \<lparr>adf_key = k, adf_value = arrow_table_marshall env v\<rparr>)
                            (snd (partition_kwargs env kwargs))\<rparr>);
           store = (\<lambda>e. snd (get_widget_ui_value env ''component_instance'' e key
                              (comp_name self)));
           r = marshall_component env self s (snd (partition_kwargs env kwargs)) d key el
       in (key = PyNone \<longrightarrow>
             mo_trace r =
               [Args_Marshalled (written e0),
                Value_Requested ''component_instance'' (written e0) key (comp_name self)] \<and>
             mo_element r = store (written e0)) \<and>
          (key \<noteq> PyNone \<longrightarrow>
             mo_trace r =
               [Value_Requested ''component_instance'' e0 key (comp_name self),
                Args_Marshalled (written (store e0))] \<and>
             mo_element r = written (store e0)))) \<and>
   instance_call env self args kws q =
     create_instance env self args
       (keyword_or_default kws ''loc'') (keyword_or_default kws ''default'')
       (keyword_or_default kws ''key'') (remaining_keywords kws) q"
proof (intro conjI impI)
  assume "args \<noteq> [] \<or> (\<exists>e. json_dumps env (fst (partition_kwargs env kwargs)) = Inl e)"
  then show "\<exists>err. create_instance env self args loc d key kwargs q = (Inl err, q)"
    by (rule create_instance_raises)
next
  assume a: "args = [] \<and> json_dumps env (fst (partition_kwargs env kwargs)) = Inr s"
  then show "create_instance env self args loc d key kwargs q =
        (case enqueue_new_element_delta env (if loc = PyNone then streamlit_main env else loc)
                (marshall_component env self s (snd (partition_kwargs env kwargs)) d key)
                ''component'' q of
           (result, q') \<Rightarrow> (Inr result, q'))"
    by (simp add: create_instance_enqueues)
next
  show "let e0 = (case comp_url self of
                   None \<Rightarrow> el\<lparr>ci_component_name := comp_name self\<rparr>
                 | Some u \<Rightarrow> el\<lparr>ci_component_name := comp_name self, ci_url := u\<rparr>);
           written = (\<lambda>e. e\<lparr>ci_args_json := s,
                        ci_args_dataframe := ci_args_dataframe e @
                          map (\<lambda>(k, v). \<lparr>adf_key = k, adf_value = arrow_table_marshall env v\<rparr>)
                            (snd (partition_kwargs env kwargs))\<rparr>);
           store = (\<lambda>e. snd (get_widget_ui_value env ''component_instance'' e key
                              (comp_name self)));
           r = marshall_component env self s (snd (partition_kwargs env kwargs)) d key el
       in (key = PyNone \<longrightarrow>
             mo_trace r =
               [Args_Marshalled (written e0),
                Value_Requested ''component_instance'' (written e0) key (comp_name self)] \<and>
             mo_element r = store (written e0)) \<and>
          (key \<noteq> PyNone \<longrightarrow>
             mo_trace r =
               [Value_Requested ''component_instance'' e0 key (comp_name self),
                Args_Marshalled (written (store e0))] \<and>
             mo_element r = written (store e0))"
    by (rule marshall_component_trace)
next
  show "instance_call env self args kws q =
     create_instance env self args
       (keyword_or_default kws ''loc'') (keyword_or_default kws ''default'')
       (keyword_or_default kws ''key'') (remaining_keywords kws) q"
    by (rule instance_call_create_instance)
qed

theorem create_instance_marshall_order_witness:
  "json_dumps example_collaborators
     (fst (partition_kwargs example_collaborators
        [(''x'', PyVal ''1''), (''data'', PyVal ''<DataFrame>'')])) = Inr ''x:1;'' \<and>
   create_instance example_collaborators example_url_component [] PyNone PyNone PyNone
     [(''x'', PyVal ''1''), (''data'', PyVal ''<DataFrame>'')] [] =
     (Inr NoValue,
      [\<lparr>ci_component_name = ''u'', ci_url = ''http://localhost:3001'',
        ci_args_json = ''x:1;'',
        ci_args_dataframe = [\<lparr>adf_key = ''data'', adf_value = ''<arrow>''\<rparr>]\<rparr>]) \<and>
   mo_trace (marshall_component example_collaborators example_url_component ''x:1;''
               (snd (partition_kwargs example_collaborators
                  [(''x'', PyVal ''1''), (''data'', PyVal ''<DataFrame>'')]))
               PyNone PyNone new_element) =
     [Args_Marshalled
        \<lparr>ci_component_name = ''u'', ci_url = ''http://localhost:3001'',
         ci_args_json = ''x:1;'',
         ci_args_dataframe = [\<lparr>adf_key = ''data'', adf_value = ''<arrow>''\<rparr>]\<rparr>,
      Value_Requested ''component_instance''
        \<lparr>ci_component_name = ''u'', ci_url = ''http://localhost:3001'',
         ci_args_json = ''x:1;'',
         ci_args_dataframe = [\<lparr>adf_key = ''data'', adf_value = ''<arrow>''\<rparr>]\<rparr>
        PyNone ''u''] \<and>
   PyVal ''k1'' \<noteq> (PyNone :: string pyval) \<and>
   mo_trace (marshall_component example_collaborators example_url_component ''x:1;''
               (snd (partition_kwargs example_collaborators
                  [(''x'', PyVal ''1''), (''data'', PyVal ''<DataFrame>'')]))
               PyNone (PyVal ''k1'') new_element) =
     [Value_Requested ''component_instance''
        \<lparr>ci_component_name = ''u'', ci_url = ''http://localhost:3001'',
         ci_args_json = [], ci_args_dataframe = []\<rparr>
        (PyVal ''k1'') ''u'',
      Args_Marshalled
        \<lparr>ci_component_name = ''u'', ci_url = ''http://localhost:3001'',
         ci_args_json = ''x:1;'',
         ci_args_dataframe = [\<lparr>adf_key = ''data'', adf_value = ''<arrow>''\<rparr>]\<rparr>] \<and>
   mo_element (marshall_component example_collaborators example_url_component ''x:1;''
               (snd (partition_kwargs example_collaborators
                  [(''x'', PyVal ''1''), (''data'', PyVal ''<DataFrame>'')]))
               PyNone (PyVal ''k1'') new_element) =
     \<lparr>ci_component_name = ''u'', ci_url = ''http://localhost:3001'',
      ci_args_json = ''x:1;'',
      ci_args_dataframe = [\<lparr>adf_key = ''data'', adf_value = ''<arrow>''\<rparr>]\<rparr> \<and>
   instance_call example_collaborators example_url_component []
     [(''x'', PyVal ''1''), (''key'', PyVal ''k1''), (''data'', PyVal ''<DataFrame>'')] [] =
     (Inr NoValue,
      [\<lparr>ci_component_name = ''u'', ci_url = ''http://localhost:3001'',
        ci_args_json = ''x:1;'',
        ci_args_dataframe = [\<lparr>adf_key = ''data'', adf_value = ''<arrow>''\<rparr>]\<rparr>])"
  using create_instance_marshall_order
          [where env = example_collaborators and self = example_url_component and
             args = "[]" and loc = PyNone and d = PyNone and key = PyNone and
             kwargs = "[(''x'', PyVal ''1''), (''data'', PyVal ''<DataFrame>'')]" and
             q = "[]" and s = "''x:1;''" and el = new_element and
             kws = "[(''x'', PyVal ''1''), (''key'', PyVal ''k1''),
                     (''data'', PyVal ''<DataFrame>'')]"]
        create_instance_marshall_order
          [where env = example_collaborators and self = example_url_component and
             args = "[]" and loc = PyNone and d = PyNone and key = "PyVal ''k1''" and
             kwargs = "[(''x'', PyVal ''1''), (''data'', PyVal ''<DataFrame>'')]" and
             q = "[]" and s = "''x:1;''" and el = new_element and
             kws = "[(''x'', PyVal ''1''), (''key'', PyVal ''k1''),
                     (''data'', PyVal ''<DataFrame>'')]"]
  by (simp add: Let_def example_collaborators_def example_url_component_def new_element_def
        partition_kwargs_def keyword_or_default_def remaining_keywords_def
        marshall_component_def marshall_element_args_def)

text \<open>
  C2, as stated, fails in its last part. The value store answers \<^verbatim>\<open>None\<close> both when
  the frontend has reported nothing and when it has reported \<^verbatim>\<open>None\<close>, and the
  builder replaces every \<^verbatim>\<open>None\<close> it gets: with a default the call returns the
  default in both cases, without one it returns \<open>NoValue\<close> in both cases. A reported
  \<^verbatim>\<open>None\<close> cannot be told from nothing yet.
\<close>

theorem reported_None_counterexample:
  "fst (instance_call (reporting_collaborators None) example_component []
          [(''x'', PyVal ''1''), (''default'', PyVal ''fallback'')] []) =
     Inr (Returned (PyVal ''fallback'')) \<and>
   fst (instance_call (reporting_collaborators (Some PyNone)) example_component []
          [(''x'', PyVal ''1''), (''default'', PyVal ''fallback'')] []) =
     Inr (Returned (PyVal ''fallback'')) \<and>
   fst (instance_call (reporting_collaborators None) example_component []
          [(''x'', PyVal ''1'')] []) = Inr NoValue \<and>
   fst (instance_call (reporting_collaborators (Some PyNone)) example_component []
          [(''x'', PyVal ''1'')] []) = Inr NoValue"
  by (simp add: instance_call_def component_call_def create_instance_def Let_def
        reporting_collaborators_def example_collaborators_def example_component_def
        new_element_def partition_kwargs_def keyword_or_default_def remaining_keywords_def
        marshall_component_def marshall_element_args_def)

lemma marshall_component_requests:
  "\<exists>e. Value_Requested ''component_instance'' e key (comp_name self)
         \<in> set (mo_trace (marshall_component env self s args_df d key el))"
  by (auto simp: marshall_component_def Let_def split: prod.splits)

text \<open>
  C2, amended. An instance call that does not raise hands the queue the builder over
  the call's default. The builder calls the value store; if that call returns a value
  other than \<^verbatim>\<open>None\<close> the result is that value; if it returns \<^verbatim>\<open>None\<close> the default
  takes its place, and the result is the default when that is not \<^verbatim>\<open>None\<close> and the
  sentinel \<open>NoValue\<close> when it is. The result is never a raw \<^verbatim>\<open>None\<close>. A call through
  the keyword binding is such a call, with the default the keyword \<^verbatim>\<open>default\<close> gives.
\<close>

theorem create_instance_default_value:
  "(args = [] \<and> json_dumps env (fst (partition_kwargs env kwargs)) = Inr s \<longrightarrow>
      create_instance env self args loc d key kwargs q =
        (case enqueue_new_element_delta env (if loc = PyNone then streamlit_main env else loc)
                (marshall_component env self s (snd (partition_kwargs env kwargs)) d key)
                ''component'' q of
           (result, q') \<Rightarrow> (Inr result, q'))) \<and>
   (\<exists>e. Value_Requested ''component_instance'' e key (comp_name self)
          \<in> set (mo_trace (marshall_component env self s
                   (snd (partition_kwargs env kwargs)) d key el))) \<and>
   (\<forall>t e k n.
      Value_Requested t e k n
        \<in> set (mo_trace (marshall_component env self s
                 (snd (partition_kwargs env kwargs)) d key el)) \<longrightarrow>
      mo_value (marshall_component env self s (snd (partition_kwargs env kwargs)) d key el) =
        (if fst (get_widget_ui_value env t e k n) \<noteq> PyNone
         then Returned (fst (get_widget_ui_value env t e k n))
         else if d \<noteq> PyNone then Returned d else NoValue)) \<and>
   mo_value (marshall_component env self s (snd (partition_kwargs env kwargs)) d key el) \<noteq>
     Returned PyNone \<and>
   instance_call env self args kws q =
     create_instance env self args
       (keyword_or_default kws ''loc'') (keyword_or_default kws ''default'')
       (keyword_or_default kws ''key'') (remaining_keywords kws) q"
  using create_instance_enqueues [of env kwargs s self loc d key q]
        marshall_component_requests [of key self env s "snd (partition_kwargs env kwargs)" d el]
        marshall_component_value [of _ _ _ _ env self s "snd (partition_kwargs env kwargs)" d key el]
        marshall_component_never_None [of env self s "snd (partition_kwargs env kwargs)" d key el]
        instance_call_create_instance [of env self args kws q]
  by blast

theorem create_instance_default_value_witness:
  "json_dumps (reporting_collaborators None)
     (fst (partition_kwargs (reporting_collaborators None) [(''x'', PyVal ''1'')])) =
     Inr ''x:1;'' \<and>
   Value_Requested ''component_instance''
     \<lparr>ci_component_name = ''c'', ci_url = [], ci_args_json = ''x:1;'', ci_args_dataframe = []\<rparr>
     PyNone ''c''
     \<in> set (mo_trace (marshall_component (reporting_collaborators None) example_component
                 ''x:1;'' (snd (partition_kwargs (reporting_collaborators None)
                    [(''x'', PyVal ''1'')])) (PyVal ''fallback'') PyNone new_element)) \<and>
   mo_value (marshall_component (reporting_collaborators None) example_component
               ''x:1;'' (snd (partition_kwargs (reporting_collaborators None)
                  [(''x'', PyVal ''1'')])) (PyVal ''fallback'') PyNone new_element) =
     Returned (PyVal ''fallback'') \<and>
   mo_value (marshall_component (reporting_collaborators None) example_component
               ''x:1;'' (snd (partition_kwargs (reporting_collaborators None)
                  [(''x'', PyVal ''1'')])) PyNone PyNone new_element) = NoValue \<and>
   mo_value (marshall_component (reporting_collaborators (Some (PyVal ''42''))) example_component
               ''x:1;'' (snd (partition_kwargs (reporting_collaborators (Some (PyVal ''42'')))
                  [(''x'', PyVal ''1'')])) (PyVal ''fallback'') PyNone new_element) =
     Returned (PyVal ''42'') \<and>
   create_instance (reporting_collaborators None) example_component [] PyNone
     (PyVal ''fallback'') PyNone [(''x'', PyVal ''1'')] [] =
     (Inr (Returned (PyVal ''fallback'')),
      [\<lparr>ci_component_name = ''c'', ci_url = [], ci_args_json = ''x:1;'',
        ci_args_dataframe = []\<rparr>])"
  using create_instance_default_value
          [where env = "reporting_collaborators None" and self = example_component and
             args = "[]" and loc = PyNone and d = "PyVal ''fallback''" and key = PyNone and
             kwargs = "[(''x'', PyVal ''1'')]" and q = "[]" and s = "''x:1;''" and
             el = new_element and kws = "[(''x'', PyVal ''1'')]"]
        create_instance_default_value
          [where env = "reporting_collaborators None" and self = example_component and
             args = "[]" and loc = PyNone and d = PyNone and key = PyNone and
             kwargs = "[(''x'', PyVal ''1'')]" and q = "[]" and s = "''x:1;''" and
             el = new_element and kws = "[(''x'', PyVal ''1'')]"]
        create_instance_default_value
          [where env = "reporting_collaborators (Some (PyVal ''42''))" and
             self = example_component and
             args = "[]" and loc = PyNone and d = "PyVal ''fallback''" and key = PyNone and
             kwargs = "[(''x'', PyVal ''1'')]" and q = "[]" and s = "''x:1;''" and
             el = new_element and kws = "[(''x'', PyVal ''1'')]"]
  by (simp add: Let_def reporting_collaborators_def example_collaborators_def
        example_component_def new_element_def partition_kwargs_def
        marshall_component_def marshall_element_args_def)

text \<open>
  C9. A call with at least one positional argument raises the usage error whose message
  quotes the first positional argument, and the queue is as it was; the same holds when
  the call comes through the keyword binding.
\<close>

theorem create_instance_positional:
  "args \<noteq> [] \<longrightarrow>
     create_instance env self args loc d key kwargs q =
       (Inl (MarshallComponentException
               (''Argument '' @ [CHR 0x27] @ py_str env (hd args) @ [CHR 0x27] @
                '' needs a label'') None), q) \<and>
     instance_call env self args kws q =
       (Inl (MarshallComponentException
               (''Argument '' @ [CHR 0x27] @ py_str env (hd args) @ [CHR 0x27] @
                '' needs a label'') None), q)"
  by (cases args) (simp_all add: create_instance_def instance_call_def component_call_def)

theorem create_instance_positional_witness:
  "[PyVal ''hello'', PyNone] \<noteq> ([] :: string pyval list) \<and>
   create_instance example_collaborators example_component [PyVal ''hello'', PyNone]
     PyNone PyNone PyNone [(''label'', PyVal ''hi'')] [] =
     (Inl (MarshallComponentException ''Argument 'hello' needs a label'' None), []) \<and>
   instance_call example_collaborators example_component [PyVal ''hello'', PyNone]
     [(''label'', PyVal ''hi''), (''key'', PyVal ''k1'')] [] =
     (Inl (MarshallComponentException ''Argument 'hello' needs a label'' None), [])"
  using create_instance_positional
          [where env = example_collaborators and self = example_component and
             args = "[PyVal ''hello'', PyNone]" and loc = PyNone and d = PyNone and
             key = PyNone and kwargs = "[(''label'', PyVal ''hi'')]" and q = "[]" and
             kws = "[(''label'', PyVal ''hi''), (''key'', PyVal ''k1'')]"]
  by (simp add: example_collaborators_def)

lemma dict_set_keys: "fst ` set (dict_set d k v) = insert k (fst ` set d)"
  by (induction d k v rule: dict_set.induct) auto

lemma partition_kwargs_foldl_keys:
  "fst ` set (fst (foldl (\<lambda>(args_json, args_df) (arg_name, arg_val).
              if P arg_val
              then (args_json, dict_set args_df arg_name arg_val)
              else (dict_set args_json arg_name arg_val, args_df)) acc kwargs)) \<union>
   fst ` set (snd (foldl (\<lambda>(args_json, args_df) (arg_name, arg_val).
              if P arg_val
              then (args_json, dict_set args_df arg_name arg_val)
              else (dict_set args_json arg_name arg_val, args_df)) acc kwargs)) =
   fst ` set (fst acc) \<union> fst ` set (snd acc) \<union> fst ` set kwargs"
proof (induction kwargs arbitrary: acc)
  case Nil
  show ?case by simp
next
  case (Cons kv kwargs)
  obtain aj ad where acc: "acc = (aj, ad)" by (cases acc)
  obtain k v where kv: "kv = (k, v)" by (cases kv)
  show ?case
    unfolding acc kv by (simp add: Cons dict_set_keys)
qed

text \<open>The names in the two argument sets are, together, the names in \<^verbatim>\<open>kwargs\<close>.\<close>

lemma partition_kwargs_keys:
  "fst ` set (fst (partition_kwargs env kwargs)) \<union> fst ` set (snd (partition_kwargs env kwargs)) =
   fst ` set kwargs"
  unfolding partition_kwargs_def
  by (simp add: partition_kwargs_foldl_keys [where P = "is_dataframe_like env"])

lemma remaining_keywords_keys:
  "fst ` set (remaining_keywords kws) = fst ` set kws - {''loc'', ''default'', ''key''}"
  by (auto simp: remaining_keywords_def image_iff)

text \<open>
  C10. An instance call partitions the keywords that are left after \<^verbatim>\<open>loc\<close>,
  \<^verbatim>\<open>default\<close> and \<^verbatim>\<open>key\<close> have been bound to their parameters. The names in the
  JSON set and in the tabular set are, together, the call's keyword names other than
  those three, so none of the three is in either set, nor the name of a tabular entry
  written into an element.
\<close>

theorem instance_call_reserved_keywords:
  "instance_call env self args kws q =
     create_instance env self args
       (keyword_or_default kws ''loc'') (keyword_or_default kws ''default'')
       (keyword_or_default kws ''key'') (remaining_keywords kws) q \<and>
   fst ` set (fst (partition_kwargs env (remaining_keywords kws))) \<union>
   fst ` set (snd (partition_kwargs env (remaining_keywords kws))) =
     fst ` set kws - {''loc'', ''default'', ''key''} \<and>
   fst ` set (fst (partition_kwargs env (remaining_keywords kws))) \<inter>
     {''loc'', ''default'', ''key''} = {} \<and>
   fst ` set (snd (partition_kwargs env (remaining_keywords kws))) \<inter>
     {''loc'', ''default'', ''key''} = {} \<and>
   adf_key ` set (ci_args_dataframe
      (marshall_element_args env s (snd (partition_kwargs env (remaining_keywords kws)))
         new_element)) \<inter> {''loc'', ''default'', ''key''} = {}"
proof -
  let ?aj = "fst (partition_kwargs env (remaining_keywords kws))"
  let ?ad = "snd (partition_kwargs env (remaining_keywords kws))"
  let ?R = "{''loc'', ''default'', ''key''}"
  have keys: "fst ` set ?aj \<union> fst ` set ?ad = fst ` set kws - ?R"
    by (simp only: partition_kwargs_keys remaining_keywords_keys)
  then have aj: "fst ` set ?aj \<inter> ?R = {}" and ad: "fst ` set ?ad \<inter> ?R = {}"
    by blast+
  have "adf_key ` set (ci_args_dataframe (marshall_element_args env s ?ad new_element)) =
        fst ` set ?ad"
    by (force simp: marshall_element_args_eq new_element_def image_iff split: prod.splits)
  with keys aj ad show ?thesis
    by (simp only: instance_call_def component_call_def)
qed

theorem instance_call_reserved_keywords_witness:
  "partition_kwargs example_collaborators
     (remaining_keywords
        [(''label'', PyVal ''hi''), (''key'', PyVal ''k1''), (''data'', PyVal ''<DataFrame>''),
         (''default'', PyVal ''0'')]) =
     ([(''label'', PyVal ''hi'')], [(''data'', PyVal ''<DataFrame>'')]) \<and>
   keyword_or_default
     [(''label'', PyVal ''hi''), (''key'', PyVal ''k1''), (''data'', PyVal ''<DataFrame>''),
      (''default'', PyVal ''0'')] ''key'' = PyVal ''k1'' \<and>
   fst ` set (fst (partition_kwargs example_collaborators
     (remaining_keywords
        [(''label'', PyVal ''hi''), (''key'', PyVal ''k1''), (''data'', PyVal ''<DataFrame>''),
         (''default'', PyVal ''0'')]))) \<inter> {''loc'', ''default'', ''key''} = {}"
  using instance_call_reserved_keywords
          [where env = example_collaborators and self = example_component and
             args = "[]" and q = "[]" and s = "''x''" and
             kws = "[(''label'', PyVal ''hi''), (''key'', PyVal ''k1''),
                (''data'', PyVal ''<DataFrame>''), (''default'', PyVal ''0'')]"]
  by (simp add: partition_kwargs_def remaining_keywords_def keyword_or_default_def
        example_collaborators_def)

end
